theory Spec2Isabelle
  imports Complex_Main "HOL-Library.Sublist"
begin

section \<open>Strings and the regular expressions of the source\<close>

text \<open>
  A JavaScript string is modelled as a \<^typ>\<open>string\<close>, one \<^typ>\<open>char\<close> per code unit.
  Every character test of the source is a test on ASCII characters; a code unit outside
  ASCII falls outside every class written below, as it does in the source. The regular
  expressions of the source carry no flags other than \<open>g\<close>, so \<open>^\<close> and \<open>$\<close> match at the two
  ends of the input only.
\<close>

definition isDigit :: "char \<Rightarrow> bool" where
  "isDigit c = (c \<in> set ''0123456789'')"

definition isLower :: "char \<Rightarrow> bool" where
  "isLower c = (c \<in> set ''abcdefghijklmnopqrstuvwxyz'')"

definition isUpper :: "char \<Rightarrow> bool" where
  "isUpper c = (c \<in> set ''ABCDEFGHIJKLMNOPQRSTUVWXYZ'')"

definition toLowerCase :: "char \<Rightarrow> char" where
  "toLowerCase c = (if isUpper c then char_of (of_char c + (32::nat)) else c)"

text \<open>The class \<open>[a-zA-Z0-9_]\<close>.\<close>

definition isWordChar :: "char \<Rightarrow> bool" where
  "isWordChar c = (isLower c \<or> isUpper c \<or> isDigit c \<or> c = CHR ''_'')"

text \<open>The class \<open>[a-z0-9_]\<close>.\<close>

definition isSafeChar :: "char \<Rightarrow> bool" where
  "isSafeChar c = (isLower c \<or> isDigit c \<or> c = CHR ''_'')"

text \<open>The class \<open>[-a-zA-Z0-9_@!$ :".]\<close> of \<open>literal\<close>.\<close>

definition isInlineChar :: "char \<Rightarrow> bool" where
  "isInlineChar c = (isWordChar c \<or> c \<in> set [CHR ''-'', CHR ''@'', CHR ''!'', CHR ''$'',
     CHR '' '', CHR '':'', CHR 0x22, CHR ''.''])"

text \<open>The class \<open>\s\<close>, on the code units below 256.\<close>

definition isSpace :: "char \<Rightarrow> bool" where
  "isSpace c = (c \<in> set [CHR 0x09, CHR 0x0A, CHR 0x0B, CHR 0x0C, CHR 0x0D, CHR 0x20, CHR 0xA0])"

text \<open>\<open>/^\$[0-9]+$/\<close>\<close>

definition matchPlaceholder :: "string \<Rightarrow> bool" where
  "matchPlaceholder expr =
     (case expr of [] \<Rightarrow> False | c # ds \<Rightarrow> c = CHR ''$'' \<and> ds \<noteq> [] \<and> list_all isDigit ds)"

text \<open>\<open>/^[0-9]+(?:\.[0-9]+)?$/\<close>\<close>

definition matchNumber :: "string \<Rightarrow> bool" where
  "matchNumber expr =
     (let ds = takeWhile isDigit expr; rest = dropWhile isDigit expr
      in ds \<noteq> [] \<and>
         (case rest of [] \<Rightarrow> True
          | c # fs \<Rightarrow> c = CHR ''.'' \<and> fs \<noteq> [] \<and> list_all isDigit fs))"

text \<open>\<open>/^\.[0-9]+$/\<close>\<close>

definition matchFraction :: "string \<Rightarrow> bool" where
  "matchFraction expr =
     (case expr of [] \<Rightarrow> False | c # ds \<Rightarrow> c = CHR ''.'' \<and> ds \<noteq> [] \<and> list_all isDigit ds)"

text \<open>\<open>/^q[^q]+q$/\<close> for a quote character \<open>q\<close>: \<open>'\<close> or \<open>"\<close> in the source.\<close>

definition matchQuoted :: "char \<Rightarrow> string \<Rightarrow> bool" where
  "matchQuoted q expr =
     (case expr of [] \<Rightarrow> False
      | c # r \<Rightarrow> c = q \<and>
          (case rev r of [] \<Rightarrow> False | l # m \<Rightarrow> l = q \<and> m \<noteq> [] \<and> q \<notin> set m))"

text \<open>\<open>/^[a-zA-Z0-9_]+$/\<close>\<close>

definition matchWord :: "string \<Rightarrow> bool" where
  "matchWord expr = (expr \<noteq> [] \<and> list_all isWordChar expr)"

text \<open>\<open>String.prototype.split\<close> with a one-character separator: the empty string gives one
  empty part.\<close>

fun splitOn :: "char \<Rightarrow> string \<Rightarrow> string list" where
  "splitOn sep [] = [[]]"
| "splitOn sep (c # cs) =
     (if c = sep then [] # splitOn sep cs
      else (case splitOn sep cs of [] \<Rightarrow> [[c]] | p # ps \<Rightarrow> (c # p) # ps))"

definition isParensSafe :: "string \<Rightarrow> bool" where
  "isParensSafe expr =
     (if matchPlaceholder expr then True
      else if matchNumber expr \<or> matchFraction expr then True
      else if matchQuoted (CHR 0x27) expr then True
      else if list_all (\<lambda>p. matchQuoted (CHR 0x22) p \<or> matchWord p) (splitOn (CHR ''.'') expr)
        then True
      else False)"

subsection \<open>mangleName\<close>

text \<open>\<open>.replace(/[A-Z]/g, (l) => `_${l.toLowerCase()}`)\<close>\<close>

definition prefixCapitals :: "string \<Rightarrow> string" where
  "prefixCapitals str = concat (map (\<lambda>l. if isUpper l then [CHR ''_'', toLowerCase l] else [l]) str)"

text \<open>\<open>.replace(/[^a-z0-9_]+/g, "_")\<close>\<close>

function replaceUnsafe :: "string \<Rightarrow> string" where
  "replaceUnsafe [] = []"
| "replaceUnsafe (c # cs) =
     (if isSafeChar c then c # replaceUnsafe cs
      else CHR ''_'' # replaceUnsafe (dropWhile (\<lambda>x. \<not> isSafeChar x) cs))"
  by pat_completeness auto
termination
  by (relation "measure length") (auto simp: less_Suc_eq_le length_dropWhile_le)

text \<open>\<open>.replace(/__+/g, "_")\<close>\<close>

function collapseUnderscores :: "string \<Rightarrow> string" where
  "collapseUnderscores [] = []"
| "collapseUnderscores (c # cs) =
     (if c = CHR ''_'' then CHR ''_'' # collapseUnderscores (dropWhile (\<lambda>x. x = CHR ''_'') cs)
      else c # collapseUnderscores cs)"
  by pat_completeness auto
termination
  by (relation "measure length") (auto simp: less_Suc_eq_le length_dropWhile_le)

text \<open>\<open>.replace(/^_/, "")\<close>\<close>

definition dropLeadingUnderscore :: "string \<Rightarrow> string" where
  "dropLeadingUnderscore str =
     (case str of [] \<Rightarrow> [] | c # cs \<Rightarrow> if c = CHR ''_'' then cs else c # cs)"

text \<open>\<open>.replace(/_$/, "")\<close>\<close>

definition dropTrailingUnderscore :: "string \<Rightarrow> string" where
  "dropTrailingUnderscore str =
     (if str \<noteq> [] \<and> last str = CHR ''_'' then butlast str else str)"

definition mangleName :: "string \<Rightarrow> string" where
  "mangleName str =
     (let r = dropTrailingUnderscore (take 50 (dropLeadingUnderscore
                (collapseUnderscores (replaceUnsafe (prefixCapitals str)))))
      in if r = [] then ''local'' else r)"

subsection \<open>Numbers as decimal text\<close>

text \<open>The counters of \<open>compile\<close> are non-negative integers; a template literal writes them
  in decimal.\<close>

definition digitChar :: "nat \<Rightarrow> char" where
  "digitChar d = ''0123456789'' ! (d mod 10)"

fun natToString :: "nat \<Rightarrow> string" where
  "natToString n = (if n < 10 then [digitChar n] else natToString (n div 10) @ [digitChar n])"

declare natToString.simps [simp del]

section \<open>Values, symbols and fragments\<close>

text \<open>
  A JavaScript number: a finite value (every finite double is a rational; the sign of zero
  is not observed by any operation of the source) or one of the three non-finite values.
\<close>

datatype js_number = Num rat | NaN | PosInfinity | NegInfinity

definition isFinite :: "js_number \<Rightarrow> bool" where
  "isFinite x = (case x of Num _ \<Rightarrow> True | _ \<Rightarrow> False)"

definition isInteger :: "js_number \<Rightarrow> bool" where
  "isInteger x = (case x of Num q \<Rightarrow> snd (quotient_of q) = 1 | _ \<Rightarrow> False)"

text \<open>Objects are compared by reference in the source; \<open>ref\<close> is the address of an object.\<close>

type_synonym ref = nat

text \<open>A JavaScript symbol: its identity and its optional description.\<close>

datatype symbol = Symbol nat "string option"

fun description :: "symbol \<Rightarrow> string option" where
  "description (Symbol i d) = d"

text \<open>
  The values a caller can hand to \<open>value\<close> and \<open>literal\<close> at run time. The static type
  \<open>SQLRawValue\<close> of the source admits only the scalars \<open>isSQLRawValue\<close> below.
\<close>

datatype js_value =
    JString string
  | JNumber js_number
  | JBoolean bool
  | JNull
  | JUndefined
  | JSymbol symbol
  | JArray ref "js_value list"
  | JObject ref "(string \<times> js_value) list"

fun isSQLRawValue :: "js_value \<Rightarrow> bool" where
  "isSQLRawValue (JString x) = True"
| "isSQLRawValue (JNumber x) = isFinite x"
| "isSQLRawValue (JBoolean b) = True"
| "isSQLRawValue JNull = True"
| "isSQLRawValue JUndefined = False"
| "isSQLRawValue (JSymbol x) = False"
| "isSQLRawValue (JArray r xs) = list_all isSQLRawValue xs"
| "isSQLRawValue (JObject r kvs) = False"

text \<open>The operator \<open>===\<close> on values.\<close>

fun numberEquals :: "js_number \<Rightarrow> js_number \<Rightarrow> bool" where
  "numberEquals (Num a) (Num b) = (a = b)"
| "numberEquals PosInfinity PosInfinity = True"
| "numberEquals NegInfinity NegInfinity = True"
| "numberEquals x y = False"

fun strictEquals :: "js_value \<Rightarrow> js_value \<Rightarrow> bool" where
  "strictEquals (JString a) (JString b) = (a = b)"
| "strictEquals (JNumber a) (JNumber b) = numberEquals a b"
| "strictEquals (JBoolean a) (JBoolean b) = (a = b)"
| "strictEquals JNull JNull = True"
| "strictEquals JUndefined JUndefined = True"
| "strictEquals (JSymbol a) (JSymbol b) = (a = b)"
| "strictEquals (JArray r xs) (JArray r' ys) = (r = r')"
| "strictEquals (JObject r xs) (JObject r' ys) = (r = r')"
| "strictEquals x y = False"

text \<open>\<open>SymbolAndName\<close>: the fields \<open>s\<close> and \<open>n\<close>.\<close>

datatype SymbolAndName = SymbolAndName symbol string

fun symbolOf :: "SymbolAndName \<Rightarrow> symbol" where
  "symbolOf (SymbolAndName sy nm) = sy"

fun nameOf :: "SymbolAndName \<Rightarrow> string" where
  "nameOf (SymbolAndName sy nm) = nm"

text \<open>An element of \<open>names\<close>: \<open>string | SymbolAndName\<close>.\<close>

datatype name = NameString string | NameSymbol SymbolAndName

text \<open>
  \<open>SQL = SQLNode | SQLQuery\<close>. Every fragment is a frozen object: its first field here is
  its address, which \<open>===\<close> compares. The \<open>names\<close> and \<open>nodes\<close> arrays are allocated by the
  constructor of their node and belong to it alone. A \<open>QUERY\<close> among the \<open>nodes\<close> of a
  \<open>QUERY\<close> is excluded by the static types only; the functions below treat it as the source
  does at run time.
\<close>

datatype SQL =
    RAW ref string
  | VALUE ref js_value
  | IDENTIFIER ref "name list"
  | INDENT ref SQL
  | PARENS ref SQL bool
  | SYMBOL_ALIAS ref SymbolAndName SymbolAndName
  | PLACEHOLDER ref symbol "SQL option"
  | QUERY ref "SQL list" nat

fun refOf :: "SQL \<Rightarrow> ref" where
  "refOf (RAW r t) = r"
| "refOf (VALUE r v) = r"
| "refOf (IDENTIFIER r ns) = r"
| "refOf (INDENT r c) = r"
| "refOf (PARENS r c f) = r"
| "refOf (SYMBOL_ALIAS r a b) = r"
| "refOf (PLACEHOLDER r sy fb) = r"
| "refOf (QUERY r ns fl) = r"

datatype error =
    InvalidExpression
  | NotATemplateLiteral
  | EmptyIdentifier
  | TooManyPlaceholders
  | AssertionError
  | ConflictingSymbolAlias
  | MissingPlaceholder
  | UnsupportedNode
  | TypeError
  | EmptyParens
  | SubstituteCycle
  | SelfSubstitute
  | SubstituteTooDeep

definition getSymbolAndName :: "symbol \<Rightarrow> SymbolAndName" where
  "getSymbolAndName sy =
     SymbolAndName sy (mangleName (case description sy of None \<Rightarrow> ''local''
                                    | Some d \<Rightarrow> if d = [] then ''local'' else d))"


section \<open>compile\<close>

text \<open>The measure of the recursion of \<open>print\<close> on a list of items.\<close>

fun itemsWeight :: "SQL list \<Rightarrow> nat" where
  "itemsWeight [] = 0"
| "itemsWeight (x # xs) = 2 * size x + 1 + itemsWeight xs"

text \<open>
  The scratch state of one call of \<open>compile\<close>: \<open>values\<close>, \<open>valueCount\<close>,
  \<open>symbolToIdentifier\<close> and \<open>descCounter\<close>.

  \<open>descCounter\<close> is a plain object \<open>{}\<close>, so reading a key that is not an own property
  reads \<open>Object.prototype\<close>. The keys are mangled names (\<open>getSymbolAndName\<close> is the only
  producer of a \<open>SymbolAndName\<close>), and of the properties of \<open>Object.prototype\<close> only
  \<open>constructor\<close> is spelled in \<open>[a-z0-9_]\<close> with no leading underscore: it reads as a
  function, which is truthy and which \<open>++\<close> turns into \<open>NaN\<close>.
\<close>

datatype counter = Count nat | CountNaN

record compile_state =
  valuesArr :: "js_value list"
  valueCount :: nat
  symbolToIdentifier :: "symbol \<rightharpoonup> string"
  descCounter :: "string \<rightharpoonup> counter"

definition initialState :: compile_state where
  "initialState = \<lparr>valuesArr = [], valueCount = 0, symbolToIdentifier = Map.empty,
     descCounter = Map.empty\<rparr>"

text \<open>\<open>descCounter[safeDesc]\<close> read as a condition.\<close>

definition descCounterTruthy :: "(string \<rightharpoonup> counter) \<Rightarrow> string \<Rightarrow> bool" where
  "descCounterTruthy dc safeDesc =
     (case dc safeDesc of
        Some (Count c) \<Rightarrow> c \<noteq> 0
      | Some CountNaN \<Rightarrow> False
      | None \<Rightarrow> safeDesc = ''constructor'')"

text \<open>\<open>`__${safeDesc}_${number === 1 ? "_" : number}`\<close>\<close>

definition identifierText :: "string \<Rightarrow> counter \<Rightarrow> string" where
  "identifierText safeDesc number =
     ''__'' @ safeDesc @ ''_'' @
       (case number of Count c \<Rightarrow> if c = 1 then ''_'' else natToString c | CountNaN \<Rightarrow> ''NaN'')"

definition makeIdentifierForSymbol :: "SymbolAndName \<Rightarrow> compile_state \<Rightarrow> string \<times> compile_state" where
  "makeIdentifierForSymbol nm st =
     (let safeDesc = nameOf nm;
          current = (if \<not> descCounterTruthy (descCounter st) safeDesc then Count 0
                     else (case descCounter st safeDesc of Some c \<Rightarrow> c | None \<Rightarrow> CountNaN));
          number = (case current of Count c \<Rightarrow> Count (c + 1) | CountNaN \<Rightarrow> CountNaN);
          identifierForSymbol = identifierText safeDesc number
      in (identifierForSymbol,
          st\<lparr>descCounter := (descCounter st)(safeDesc \<mapsto> number),
             symbolToIdentifier := (symbolToIdentifier st)(symbolOf nm \<mapsto> identifierForSymbol)\<rparr>))"

text \<open>A looked-up alias read as a condition: present and not the empty string.\<close>

definition truthy :: "string option \<Rightarrow> bool" where
  "truthy x = (case x of None \<Rightarrow> False | Some i \<Rightarrow> i \<noteq> [])"

text \<open>The loop over \<open>item.names\<close> of the \<open>IDENTIFIER\<close> case.\<close>

fun mapNames :: "name list \<Rightarrow> compile_state \<Rightarrow> string list \<times> compile_state" where
  "mapNames [] st = ([], st)"
| "mapNames (NameString str # names) st =
     (case mapNames names st of (mapped, st') \<Rightarrow> (str # mapped, st'))"
| "mapNames (NameSymbol nm # names) st =
     (case (if truthy (symbolToIdentifier st (symbolOf nm))
            then (the (symbolToIdentifier st (symbolOf nm)), st)
            else makeIdentifierForSymbol nm st) of
        (identifierForSymbol, st1) \<Rightarrow>
          (case mapNames names st1 of (mapped, st2) \<Rightarrow> (identifierForSymbol # mapped, st2)))"

text \<open>\<open>Array.prototype.join\<close>\<close>

fun joinWith :: "string \<Rightarrow> string list \<Rightarrow> string" where
  "joinWith sep [] = []"
| "joinWith sep [x] = x"
| "joinWith sep (x # y # ys) = x @ sep @ joinWith sep (y # ys)"

text \<open>\<open>"  ".repeat(k)\<close>\<close>

definition spaces :: "nat \<Rightarrow> string" where
  "spaces k = replicate (2 * k) (CHR '' '')"

text \<open>\<open>item.text.replace(/\n/g, "\n" + "  ".repeat(indent))\<close>\<close>

definition indentNewlines :: "nat \<Rightarrow> string \<Rightarrow> string" where
  "indentNewlines indent txt =
     concat (map (\<lambda>c. if c = CHR 0x0A then CHR 0x0A # spaces indent else [c]) txt)"

text \<open>
  The special case of a final \<open>;\<close>: the previous fragment loses a trailing newline. With no
  previous fragment \<open>prev\<close> is \<open>undefined\<close> and \<open>prev.endsWith\<close> raises a \<open>TypeError\<close>.
\<close>

definition trimPrevious :: "string list \<Rightarrow> error + string list" where
  "trimPrevious sqlFragments =
     (if sqlFragments = [] then Inl TypeError
      else let prev = last sqlFragments
           in if prev \<noteq> [] \<and> last prev = CHR 0x0A
              then Inr (butlast sqlFragments @ [butlast prev])
              else Inr sqlFragments)"

text \<open>\<open>values[i] = v\<close>: an assignment past the end extends the array.\<close>

definition arraySet :: "js_value list \<Rightarrow> nat \<Rightarrow> js_value \<Rightarrow> js_value list" where
  "arraySet xs i v =
     (if i < length xs then xs[i := v] else xs @ replicate (i - length xs) JUndefined @ [v])"

text \<open>\<open>.replace(/\n\s*\n/g, "\n")\<close>: a match at a newline runs to the last newline of the
  white space that follows it.\<close>

definition afterLastNewline :: "string \<Rightarrow> string" where
  "afterLastNewline ws = rev (takeWhile (\<lambda>x. x \<noteq> CHR 0x0A) (rev ws))"

function collapseBlankLines :: "string \<Rightarrow> string" where
  "collapseBlankLines [] = []"
| "collapseBlankLines (c # cs) =
     (if c = CHR 0x0A \<and> CHR 0x0A \<in> set (takeWhile isSpace cs)
      then CHR 0x0A # collapseBlankLines (afterLastNewline (takeWhile isSpace cs) @ dropWhile isSpace cs)
      else c # collapseBlankLines cs)"
  by pat_completeness auto
termination
proof (relation "measure length")
  fix c :: char and cs :: string
  have "length (afterLastNewline (takeWhile isSpace cs)) \<le> length (takeWhile isSpace cs)"
    unfolding afterLastNewline_def
    by (metis length_rev length_takeWhile_le)
  moreover have "length (takeWhile isSpace cs) + length (dropWhile isSpace cs) = length cs"
    by (metis length_append takeWhile_dropWhile_id)
  ultimately show "c = CHR 0x0A \<and> CHR 0x0A \<in> set (takeWhile isSpace cs) \<Longrightarrow>
      (afterLastNewline (takeWhile isSpace cs) @ dropWhile isSpace cs, c # cs) \<in> measure length"
    by simp
qed simp_all

text \<open>\<open>placeholderValues\<close>: a \<open>Map\<close> from symbols to fragments; no \<open>options\<close> is the empty map.\<close>

type_synonym placeholderValues = "symbol \<rightharpoonup> SQL"

text \<open>
  \<open>print\<close>. The loop over \<open>items\<close> is \<open>printItems\<close>, with the loop variables \<open>itemIndex\<close>
  and \<open>sqlFragments\<close> as arguments. A placeholder that \<open>placeholderValues\<close> resolves to a
  fragment holding the same placeholder makes the source recurse without end; the first
  argument bounds the number of nested resolutions through \<open>placeholderValues\<close>, and the
  result \<open>None\<close> says that the bound was reached. \<open>isDev\<close> is the module constant of that
  name.
\<close>

function print :: "nat \<Rightarrow> bool \<Rightarrow> placeholderValues \<Rightarrow> SQL \<Rightarrow> nat \<Rightarrow> compile_state
      \<Rightarrow> (error + string \<times> compile_state) option"
  and printItems :: "nat \<Rightarrow> bool \<Rightarrow> placeholderValues \<Rightarrow> SQL list \<Rightarrow> nat \<Rightarrow> nat \<Rightarrow> nat
      \<Rightarrow> string list \<Rightarrow> compile_state \<Rightarrow> (error + string list \<times> compile_state) option"
where
  "print fuel isDev pv (QUERY r nodes fl) indent st =
     (case printItems fuel isDev pv nodes 0 (length nodes) indent [] st of
        None \<Rightarrow> None
      | Some (Inl e) \<Rightarrow> Some (Inl e)
      | Some (Inr (sqlFragments, st')) \<Rightarrow> Some (Inr (concat sqlFragments, st')))"
| "print fuel isDev pv (RAW r t) indent st =
     (case printItems fuel isDev pv [RAW r t] 0 1 indent [] st of
        None \<Rightarrow> None
      | Some (Inl e) \<Rightarrow> Some (Inl e)
      | Some (Inr (sqlFragments, st')) \<Rightarrow> Some (Inr (concat sqlFragments, st')))"
| "print fuel isDev pv (VALUE r v) indent st =
     (case printItems fuel isDev pv [VALUE r v] 0 1 indent [] st of
        None \<Rightarrow> None
      | Some (Inl e) \<Rightarrow> Some (Inl e)
      | Some (Inr (sqlFragments, st')) \<Rightarrow> Some (Inr (concat sqlFragments, st')))"
| "print fuel isDev pv (IDENTIFIER r names) indent st =
     (case printItems fuel isDev pv [IDENTIFIER r names] 0 1 indent [] st of
        None \<Rightarrow> None
      | Some (Inl e) \<Rightarrow> Some (Inl e)
      | Some (Inr (sqlFragments, st')) \<Rightarrow> Some (Inr (concat sqlFragments, st')))"
| "print fuel isDev pv (INDENT r content) indent st =
     (case printItems fuel isDev pv [INDENT r content] 0 1 indent [] st of
        None \<Rightarrow> None
      | Some (Inl e) \<Rightarrow> Some (Inl e)
      | Some (Inr (sqlFragments, st')) \<Rightarrow> Some (Inr (concat sqlFragments, st')))"
| "print fuel isDev pv (PARENS r content force) indent st =
     (case printItems fuel isDev pv [PARENS r content force] 0 1 indent [] st of
        None \<Rightarrow> None
      | Some (Inl e) \<Rightarrow> Some (Inl e)
      | Some (Inr (sqlFragments, st')) \<Rightarrow> Some (Inr (concat sqlFragments, st')))"
| "print fuel isDev pv (SYMBOL_ALIAS r a b) indent st =
     (case printItems fuel isDev pv [SYMBOL_ALIAS r a b] 0 1 indent [] st of
        None \<Rightarrow> None
      | Some (Inl e) \<Rightarrow> Some (Inl e)
      | Some (Inr (sqlFragments, st')) \<Rightarrow> Some (Inr (concat sqlFragments, st')))"
| "print fuel isDev pv (PLACEHOLDER r sy fallback) indent st =
     (case printItems fuel isDev pv [PLACEHOLDER r sy fallback] 0 1 indent [] st of
        None \<Rightarrow> None
      | Some (Inl e) \<Rightarrow> Some (Inl e)
      | Some (Inr (sqlFragments, st')) \<Rightarrow> Some (Inr (concat sqlFragments, st')))"
| "printItems fuel isDev pv [] itemIndex itemCount indent sqlFragments st =
     Some (Inr (sqlFragments, st))"
| "printItems fuel isDev pv (RAW r t # items) itemIndex itemCount indent sqlFragments st =
     (if t = [] then
        printItems fuel isDev pv items (itemIndex + 1) itemCount indent sqlFragments st
      else
        (case (if isDev \<and> itemIndex = itemCount - 1 \<and> t = '';''
               then trimPrevious sqlFragments else Inr sqlFragments) of
           Inl e \<Rightarrow> Some (Inl e)
         | Inr fragments \<Rightarrow>
             printItems fuel isDev pv items (itemIndex + 1) itemCount indent
               (fragments @ [if isDev then indentNewlines indent t else t]) st))"
| "printItems fuel isDev pv (IDENTIFIER r names # items) itemIndex itemCount indent sqlFragments st =
     (case mapNames names st of
        (mappedNames, st') \<Rightarrow>
          printItems fuel isDev pv items (itemIndex + 1) itemCount indent
            (sqlFragments @ [if length names = 1 then hd mappedNames
                             else joinWith ''.'' mappedNames]) st')"
| "printItems fuel isDev pv (VALUE r v # items) itemIndex itemCount indent sqlFragments st =
     (if valueCount st + 1 > 65535 then Some (Inl TooManyPlaceholders)
      else
        printItems fuel isDev pv items (itemIndex + 1) itemCount indent
          (sqlFragments @ [''$'' @ natToString (valueCount st + 1)])
          (st\<lparr>valueCount := valueCount st + 1,
              valuesArr := arraySet (valuesArr st) (valueCount st + 1 - 1) v\<rparr>))"
| "printItems fuel isDev pv (INDENT r content # items) itemIndex itemCount indent sqlFragments st =
     (if \<not> isDev then Some (Inl AssertionError)
      else
        (case print fuel isDev pv content (indent + 1) st of
           None \<Rightarrow> None
         | Some (Inl e) \<Rightarrow> Some (Inl e)
         | Some (Inr (inner, st')) \<Rightarrow>
             printItems fuel isDev pv items (itemIndex + 1) itemCount indent
               (sqlFragments @ [[CHR 0x0A] @ spaces (indent + 1) @ inner @ [CHR 0x0A] @ spaces indent])
               st'))"
| "printItems fuel isDev pv (PARENS r content force # items) itemIndex itemCount indent sqlFragments st =
     (case print fuel isDev pv content indent st of
        None \<Rightarrow> None
      | Some (Inl e) \<Rightarrow> Some (Inl e)
      | Some (Inr (inner, st')) \<Rightarrow>
          printItems fuel isDev pv items (itemIndex + 1) itemCount indent
            (sqlFragments @ [if force \<or> \<not> isParensSafe inner then ''('' @ inner @ '')'' else inner])
            st')"
| "printItems fuel isDev pv (SYMBOL_ALIAS r a b # items) itemIndex itemCount indent sqlFragments st =
     (let symbol1 = symbolOf a;
          symbol2 = symbolOf b;
          name1 = symbolToIdentifier st symbol1;
          name2 = symbolToIdentifier st symbol2
      in if truthy name1 \<and> truthy name2 \<and> name1 \<noteq> name2 then Some (Inl ConflictingSymbolAlias)
         else
           printItems fuel isDev pv items (itemIndex + 1) itemCount indent sqlFragments
             (if truthy name1 then
                st\<lparr>symbolToIdentifier := (symbolToIdentifier st)(symbol2 \<mapsto> the name1)\<rparr>
              else if truthy name2 then
                st\<lparr>symbolToIdentifier := (symbolToIdentifier st)(symbol1 \<mapsto> the name2)\<rparr>
              else
                (case makeIdentifierForSymbol a st of
                   (identifierForSymbol, st') \<Rightarrow>
                     st'\<lparr>symbolToIdentifier :=
                          (symbolToIdentifier st')(symbol1 \<mapsto> identifierForSymbol,
                                                  symbol2 \<mapsto> identifierForSymbol)\<rparr>)))"
| "printItems fuel isDev pv (PLACEHOLDER r sy fallback # items) itemIndex itemCount indent sqlFragments st =
     (case pv sy of
        Some resolvedPlaceholder \<Rightarrow>
          (case fuel of
             0 \<Rightarrow> None
           | Suc fuel' \<Rightarrow>
               (case print fuel' isDev pv resolvedPlaceholder indent st of
                  None \<Rightarrow> None
                | Some (Inl e) \<Rightarrow> Some (Inl e)
                | Some (Inr (inner, st')) \<Rightarrow>
                    printItems fuel isDev pv items (itemIndex + 1) itemCount indent
                      (sqlFragments @ [inner]) st'))
      | None \<Rightarrow>
          (case fallback of
             None \<Rightarrow> Some (Inl MissingPlaceholder)
           | Some resolvedPlaceholder \<Rightarrow>
               (case print fuel isDev pv resolvedPlaceholder indent st of
                  None \<Rightarrow> None
                | Some (Inl e) \<Rightarrow> Some (Inl e)
                | Some (Inr (inner, st')) \<Rightarrow>
                    printItems fuel isDev pv items (itemIndex + 1) itemCount indent
                      (sqlFragments @ [inner]) st')))"
| "printItems fuel isDev pv (QUERY r nodes fl # items) itemIndex itemCount indent sqlFragments st =
     Some (Inl UnsupportedNode)"
  by pat_completeness auto

termination
  apply (relation "inv_image (less_than <*lex*> less_than)
     (\<lambda>x. case x of
        Inl (fuel, isDev, pv, input, indent, st) \<Rightarrow> (fuel, 2 * size input + 2)
      | Inr (fuel, isDev, pv, items, itemIndex, itemCount, indent, sqlFragments, st) \<Rightarrow>
          (fuel, itemsWeight items))")
   apply (auto simp: le_imp_less_Suc)
  subgoal for nodes by (induction nodes) auto
  done

record compiled =
  out_text :: string
  out_values :: "js_value list"

definition compile :: "nat \<Rightarrow> bool \<Rightarrow> placeholderValues \<Rightarrow> SQL \<Rightarrow> (error + compiled) option" where
  "compile fuel isDev pv sql =
     (case print fuel isDev pv sql 0 initialState of
        None \<Rightarrow> None
      | Some (Inl e) \<Rightarrow> Some (Inl e)
      | Some (Inr (t, st)) \<Rightarrow>
          Some (Inr \<lparr>out_text = (if isDev then collapseBlankLines t else t),
                      out_values = valuesArr st\<rparr>))"

section \<open>The module state and the node constructors\<close>

text \<open>
  Modelled from the spec: the class \<open>LRU\<close> of \<open>@graphile/lru\<close>, which is not part of the
  sources at hand. The spec calls it a bounded cache from text to Raw node that retains the
  most recently used entries: here an association list, most recent first, cut to
  \<open>maxLength\<close> entries.
\<close>

type_synonym lru = "(string \<times> SQL) list"

definition lruGet :: "string \<Rightarrow> lru \<Rightarrow> SQL option \<times> lru" where
  "lruGet k c =
     (case map_of c k of
        None \<Rightarrow> (None, c)
      | Some v \<Rightarrow> (Some v, (k, v) # filter (\<lambda>kv. fst kv \<noteq> k) c))"

definition lruSet :: "nat \<Rightarrow> string \<Rightarrow> SQL \<Rightarrow> lru \<Rightarrow> lru" where
  "lruSet maxLength k v c = take maxLength ((k, v) # filter (\<lambda>kv. fst kv \<noteq> k) c)"

text \<open>
  The mutable state of the module: the allocator of objects, the two caches and the flag of
  the one-time warning of \<open>raw\<close>. The \<open>$$export\<close> annotation of \<open>exportAs\<close> is metadata that no
  function below reads; it is left out.
\<close>

record module_state =
  nextRef :: ref
  CACHE_RAW_NODES :: lru
  CACHE_SIMPLE_FRAGMENTS :: "(string \<times> SQL) list"
  sqlRawWarningOutput :: bool

definition makeRawNode :: "string \<Rightarrow> module_state \<Rightarrow> SQL \<times> module_state" where
  "makeRawNode t g =
     (case lruGet t (CACHE_RAW_NODES g) of
        (Some cached, c) \<Rightarrow> (cached, g\<lparr>CACHE_RAW_NODES := c\<rparr>)
      | (None, c) \<Rightarrow>
          (let newNode = RAW (nextRef g) t
           in (newNode, g\<lparr>nextRef := nextRef g + 1,
                          CACHE_RAW_NODES := lruSet 10000 t newNode c\<rparr>)))"

definition makeIdentifierNode :: "name list \<Rightarrow> module_state \<Rightarrow> SQL \<times> module_state" where
  "makeIdentifierNode names g = (IDENTIFIER (nextRef g) names, g\<lparr>nextRef := nextRef g + 1\<rparr>)"

definition makeValueNode :: "js_value \<Rightarrow> module_state \<Rightarrow> SQL \<times> module_state" where
  "makeValueNode rawValue g = (VALUE (nextRef g) rawValue, g\<lparr>nextRef := nextRef g + 1\<rparr>)"

definition makeIndentNode :: "SQL \<Rightarrow> module_state \<Rightarrow> SQL \<times> module_state" where
  "makeIndentNode content g = (INDENT (nextRef g) content, g\<lparr>nextRef := nextRef g + 1\<rparr>)"

text \<open>\<open>force ?? false\<close>: an absent \<open>force\<close> is \<open>None\<close>.\<close>

definition makeParensNode :: "SQL \<Rightarrow> bool option \<Rightarrow> module_state \<Rightarrow> SQL \<times> module_state" where
  "makeParensNode content force g =
     (PARENS (nextRef g) content (case force of None \<Rightarrow> False | Some f \<Rightarrow> f),
      g\<lparr>nextRef := nextRef g + 1\<rparr>)"

definition makeSymbolAliasNode :: "symbol \<Rightarrow> symbol \<Rightarrow> module_state \<Rightarrow> SQL \<times> module_state" where
  "makeSymbolAliasNode a b g =
     (SYMBOL_ALIAS (nextRef g) (getSymbolAndName a) (getSymbolAndName b),
      g\<lparr>nextRef := nextRef g + 1\<rparr>)"

definition makePlaceholderNode :: "symbol \<Rightarrow> SQL option \<Rightarrow> module_state \<Rightarrow> SQL \<times> module_state" where
  "makePlaceholderNode sy fallback g =
     (PLACEHOLDER (nextRef g) sy fallback, g\<lparr>nextRef := nextRef g + 1\<rparr>)"

definition makeQueryNode :: "SQL list \<Rightarrow> nat \<Rightarrow> module_state \<Rightarrow> SQL \<times> module_state" where
  "makeQueryNode nodes fl g = (QUERY (nextRef g) nodes fl, g\<lparr>nextRef := nextRef g + 1\<rparr>)"

text \<open>The four nodes made when the module is loaded, and the state after loading.\<close>

definition trueNode :: SQL where "trueNode = RAW 0 ''TRUE''"
definition falseNode :: SQL where "falseNode = RAW 1 ''FALSE''"
definition nullNode :: SQL where "nullNode = RAW 2 ''NULL''"
definition blank :: SQL where "blank = RAW 3 []"

definition emptyModule :: module_state where
  "emptyModule = \<lparr>nextRef = 0, CACHE_RAW_NODES = [], CACHE_SIMPLE_FRAGMENTS = [],
     sqlRawWarningOutput = False\<rparr>"

definition initialModule :: module_state where
  "initialModule =
     snd (makeRawNode [] (snd (makeRawNode ''NULL'' (snd (makeRawNode ''FALSE''
       (snd (makeRawNode ''TRUE'' emptyModule)))))))"

section \<open>The exported constructors\<close>

text \<open>
  An exported constructor either raises or returns a fragment and the new module state.
  The arguments have the static types of the source, so the checks of \<open>typeof\<close>,
  \<open>Array.isArray\<close> and of the trust mark (\<open>isSQL\<close>, \<open>enforceValidNode\<close>) cannot fail and are not
  written, except where an argument is missing.
\<close>

type_synonym 'a result = "error + 'a \<times> module_state"

definition raw :: "string \<Rightarrow> module_state \<Rightarrow> SQL result" where
  "raw t g = Inr (makeRawNode t (g\<lparr>sqlRawWarningOutput := True\<rparr>))"


definition sql_value :: "js_value \<Rightarrow> module_state \<Rightarrow> SQL result" where
  "sql_value val g = Inr (makeValueNode val g)"

text \<open>
  \<open>literal\<close>. The text of a number (\<open>"" + val\<close>, the \<open>Number::toString\<close> of the language) is
  the parameter \<open>numberToString\<close>.
\<close>

definition literal :: "(js_number \<Rightarrow> string) \<Rightarrow> js_value \<Rightarrow> module_state \<Rightarrow> SQL result" where
  "literal numberToString val g =
     (case val of
        JString str \<Rightarrow>
          if list_all isInlineChar str then Inr (makeRawNode ([CHR 0x27] @ str @ [CHR 0x27]) g)
          else sql_value val g
      | JNumber x \<Rightarrow>
          if isFinite x then
            (if isInteger x then Inr (makeRawNode (numberToString x) g)
             else Inr (makeRawNode ([CHR 0x27] @ numberToString x @ [CHR 0x27] @ ''::float'') g))
          else sql_value val g
      | JBoolean b \<Rightarrow> Inr (if b then trueNode else falseNode, g)
      | JNull \<Rightarrow> Inr (nullNode, g)
      | JUndefined \<Rightarrow> Inr (nullNode, g)
      | _ \<Rightarrow> sql_value val g)"

text \<open>The template tag \<open>sql\<close> (\<open>sqlBase\<close>): \<open>strings\<close> are the text pieces, \<open>vals\<close> the fragments between
  them. A missing fragment is \<open>undefined\<close>, which \<open>enforceValidNode\<close> rejects.\<close>

fun sqlItems :: "string list \<Rightarrow> SQL list \<Rightarrow> SQL list \<Rightarrow> module_state
      \<Rightarrow> error + SQL list \<times> module_state" where
  "sqlItems [] vals items g = Inr (items, g)"
| "sqlItems (t # strings) vals items g =
     (case (if length t > 0 then (case makeRawNode t g of (nd, g') \<Rightarrow> (items @ [nd], g'))
            else (items, g)) of
        (items1, g1) \<Rightarrow>
          if strings = [] then Inr (items1, g1)
          else (case vals of
                  [] \<Rightarrow> Inl InvalidExpression
                | valid # vals' \<Rightarrow>
                    (case valid of
                       QUERY r nodes fl \<Rightarrow> sqlItems strings vals' (items1 @ nodes) g1
                     | _ \<Rightarrow> sqlItems strings vals' (items1 @ [valid]) g1)))"

definition sqlBase :: "string list \<Rightarrow> SQL list \<Rightarrow> module_state \<Rightarrow> SQL result" where
  "sqlBase strings vals g =
     (if length strings = 1 then
        (let first = hd strings
         in if first = [] then Inr (blank, g)
            else (case map_of (CACHE_SIMPLE_FRAGMENTS g) first of
                    Some nd \<Rightarrow> Inr (nd, g)
                  | None \<Rightarrow>
                      (case makeRawNode first g of
                         (nd, g') \<Rightarrow>
                           Inr (nd, g'\<lparr>CACHE_SIMPLE_FRAGMENTS :=
                                          (first, nd) # CACHE_SIMPLE_FRAGMENTS g'\<rparr>))))
      else
        (case sqlItems strings vals [] g of
           Inl e \<Rightarrow> Inl e
         | Inr (items, g') \<Rightarrow> Inr (makeQueryNode items 0 g')))"

fun joinItems :: "SQL list \<Rightarrow> nat \<Rightarrow> bool \<Rightarrow> SQL \<Rightarrow> SQL list" where
  "joinItems [] i hasSeparator sepNode = []"
| "joinItems (nd # items) i hasSeparator sepNode =
     (if i > 0 \<and> hasSeparator then [sepNode] else []) @
     (case nd of QUERY r nodes fl \<Rightarrow> nodes | _ \<Rightarrow> [nd]) @
     joinItems items (i + 1) hasSeparator sepNode"

definition sql_join :: "SQL list \<Rightarrow> string \<Rightarrow> module_state \<Rightarrow> SQL result" where
  "sql_join items separator g =
     (if length items = 0 then Inr (blank, g)
      else if length items = 1 then Inr (hd items, g)
      else
        (let hasSeparator = length separator > 0
         in case (if hasSeparator then makeRawNode separator g else (blank, g)) of
              (sepNode, g') \<Rightarrow> Inr (makeQueryNode (joinItems items 0 hasSeparator sepNode) 0 g')))"

text \<open>\<open>indent\<close> takes a fragment or the arguments of a template.\<close>

definition sql_indent :: "bool \<Rightarrow> SQL + string list \<times> SQL list \<Rightarrow> module_state \<Rightarrow> SQL result" where
  "sql_indent isDev fragmentOrStrings g =
     (case (case fragmentOrStrings of
              Inl fragment \<Rightarrow> Inr (fragment, g)
            | Inr (strings, vals) \<Rightarrow> sqlBase strings vals g) of
        Inl e \<Rightarrow> Inl e
      | Inr (fragment, g') \<Rightarrow> Inr (if isDev then makeIndentNode fragment g' else (fragment, g')))"

definition indentIf :: "bool \<Rightarrow> bool \<Rightarrow> SQL \<Rightarrow> module_state \<Rightarrow> SQL result" where
  "indentIf isDev condition fragment g =
     Inr (if isDev \<and> condition then makeIndentNode fragment g else (fragment, g))"

fun parens :: "SQL \<Rightarrow> bool option \<Rightarrow> module_state \<Rightarrow> SQL result" where
  "parens (QUERY r [] fl) force g = Inl EmptyParens"
| "parens (QUERY r [nd] fl) force g = parens nd force g"
| "parens (QUERY r (nd # nd' # nodes) fl) force g =
     Inr (makeParensNode (QUERY r (nd # nd' # nodes) fl) force g)"
| "parens (PARENS r content f) force g =
     (if f \<or> \<not> (force = Some True) then Inr (PARENS r content f, g)
      else parens content (Some True) g)"
| "parens (INDENT r content) force g =
     (case content of
        QUERY qr nodes fl \<Rightarrow>
          (case nodes of
             [PARENS pr c pf] \<Rightarrow>
               if \<not> pf then Inr (makeParensNode c force g)
               else Inr (makeParensNode (INDENT r content) force g)
           | _ \<Rightarrow> Inr (makeParensNode (INDENT r content) force g))
      | PARENS pr c pf \<Rightarrow>
          if \<not> pf then Inr (makeParensNode c force g)
          else Inr (makeParensNode (INDENT r content) force g)
      | _ \<Rightarrow> Inr (makeParensNode (INDENT r content) force g))"
| "parens fragment force g = Inr (makeParensNode fragment force g)"

definition symbolAlias :: "symbol \<Rightarrow> symbol \<Rightarrow> module_state \<Rightarrow> SQL result" where
  "symbolAlias symbol1 symbol2 g = Inr (makeSymbolAliasNode symbol1 symbol2 g)"

definition placeholder :: "symbol \<Rightarrow> SQL option \<Rightarrow> module_state \<Rightarrow> SQL result" where
  "placeholder sy fallback g = Inr (makePlaceholderNode sy fallback g)"

section \<open>isEquivalent\<close>

text \<open>\<open>symbolSubstitutes\<close> is an optional \<open>Map\<close>; \<open>symbolSubstitutes?.get(x)\<close>.\<close>

type_synonym symbolSubstitutes = "(symbol \<rightharpoonup> symbol) option"

definition substituteOf :: "symbolSubstitutes \<Rightarrow> symbol \<Rightarrow> symbol option" where
  "substituteOf subs sy = (case subs of None \<Rightarrow> None | Some m \<Rightarrow> m sy)"

text \<open>The loop of \<open>getSubstitute\<close>; the first argument counts the iterations left of 1000.\<close>

fun getSubstituteLoop :: "nat \<Rightarrow> symbol list \<Rightarrow> symbol \<Rightarrow> symbolSubstitutes \<Rightarrow> error + symbol" where
  "getSubstituteLoop 0 path sy subs = Inl SubstituteTooDeep"
| "getSubstituteLoop (Suc k) path sy subs =
     (if sy \<in> set path then Inl SubstituteCycle
      else (case substituteOf subs sy of
              Some sub \<Rightarrow>
                if sub = sy then Inl SelfSubstitute
                else getSubstituteLoop k (path @ [sy]) sub subs
            | None \<Rightarrow> Inr sy))"

definition getSubstitute :: "symbol \<Rightarrow> symbolSubstitutes \<Rightarrow> error + symbol" where
  "getSubstitute initialSymbol subs = getSubstituteLoop 1000 [] initialSymbol subs"

definition identifiersAreEquivalent :: "name \<Rightarrow> name \<Rightarrow> symbolSubstitutes \<Rightarrow> error + bool" where
  "identifiersAreEquivalent ids1 ids2 subs =
     (case ids1 of
        NameString str \<Rightarrow> Inr (ids2 = NameString str)
      | NameSymbol nm1 \<Rightarrow>
          (case ids2 of
             NameString str \<Rightarrow> Inr False
           | NameSymbol nm2 \<Rightarrow>
               (let namesMatch = (nameOf nm1 = nameOf nm2)
                in case getSubstitute (symbolOf nm1) subs of
                     Inl e \<Rightarrow> Inl e
                   | Inr symbol1 \<Rightarrow>
                       (case getSubstitute (symbolOf nm2) subs of
                          Inl e \<Rightarrow> Inl e
                        | Inr symbol2 \<Rightarrow> Inr (namesMatch \<and> symbol1 = symbol2)))))"

text \<open>
  \<open>arraysMatch\<close> with a comparator. Its first test, \<open>array1 === array2\<close>, is the argument
  \<open>same\<close>: an array belongs to one node, so two arrays are the same object exactly when
  their nodes are.
\<close>

fun arraysMatchLoop :: "'a list \<Rightarrow> 'a list \<Rightarrow> ('a \<Rightarrow> 'a \<Rightarrow> error + bool) \<Rightarrow> error + bool" where
  "arraysMatchLoop (x # xs) (y # ys) comparator =
     (case comparator x y of
        Inl e \<Rightarrow> Inl e
      | Inr ok \<Rightarrow> if \<not> ok then Inr False else arraysMatchLoop xs ys comparator)"
| "arraysMatchLoop xs ys comparator = Inr True"

definition arraysMatch :: "bool \<Rightarrow> 'a list \<Rightarrow> 'a list \<Rightarrow> ('a \<Rightarrow> 'a \<Rightarrow> error + bool) \<Rightarrow> error + bool" where
  "arraysMatch same array1 array2 comparator =
     (if same then Inr True
      else if length array1 \<noteq> length array2 then Inr False
      else arraysMatchLoop array1 array2 comparator)"

text \<open>
  \<open>isEquivalent\<close> on two fragments; \<open>nodesMatch\<close> is the loop of \<open>arraysMatch\<close> with
  \<open>isEquivalent\<close> as the comparator.
\<close>

fun isEquivalentSQL :: "SQL \<Rightarrow> SQL \<Rightarrow> symbolSubstitutes \<Rightarrow> error + bool"
  and nodesMatch :: "SQL list \<Rightarrow> SQL list \<Rightarrow> symbolSubstitutes \<Rightarrow> error + bool"
where
  "isEquivalentSQL (QUERY r nodes fl) sql2 subs =
     (if r = refOf sql2 then Inr True
      else (case sql2 of
              QUERY r' nodes' fl' \<Rightarrow>
                if length nodes \<noteq> length nodes' then Inr False else nodesMatch nodes nodes' subs
            | _ \<Rightarrow> Inr False))"
| "isEquivalentSQL (RAW r t) sql2 subs =
     (if r = refOf sql2 then Inr True
      else (case sql2 of RAW r' t' \<Rightarrow> Inr (t = t') | _ \<Rightarrow> Inr False))"
| "isEquivalentSQL (VALUE r v) sql2 subs =
     (if r = refOf sql2 then Inr True
      else (case sql2 of VALUE r' v' \<Rightarrow> Inr (strictEquals v v') | _ \<Rightarrow> Inr False))"
| "isEquivalentSQL (INDENT r content) sql2 subs =
     (if r = refOf sql2 then Inr True
      else (case sql2 of INDENT r' content' \<Rightarrow> isEquivalentSQL content content' subs
            | _ \<Rightarrow> Inr False))"
| "isEquivalentSQL (PARENS r content force) sql2 subs =
     (if r = refOf sql2 then Inr True
      else (case sql2 of
              PARENS r' content' force' \<Rightarrow>
                if force' \<noteq> force then Inr False else isEquivalentSQL content content' subs
            | _ \<Rightarrow> Inr False))"
| "isEquivalentSQL (IDENTIFIER r names) sql2 subs =
     (if r = refOf sql2 then Inr True
      else (case sql2 of
              IDENTIFIER r' names' \<Rightarrow>
                arraysMatch False names names' (\<lambda>a b. identifiersAreEquivalent a b subs)
            | _ \<Rightarrow> Inr False))"
| "isEquivalentSQL (PLACEHOLDER r sy fallback) sql2 subs =
     (if r = refOf sql2 then Inr True
      else (case sql2 of
              PLACEHOLDER r' sy' fallback' \<Rightarrow>
                (case getSubstitute sy subs of
                   Inl e \<Rightarrow> Inl e
                 | Inr symbol1 \<Rightarrow>
                     (case getSubstitute sy' subs of
                        Inl e \<Rightarrow> Inl e
                      | Inr symbol2 \<Rightarrow> Inr (symbol1 = symbol2)))
            | _ \<Rightarrow> Inr False))"
| "isEquivalentSQL (SYMBOL_ALIAS r a b) sql2 subs =
     (if r = refOf sql2 then Inr True else Inr False)"
| "nodesMatch (x # xs) (y # ys) subs =
     (case isEquivalentSQL x y subs of
        Inl e \<Rightarrow> Inl e
      | Inr ok \<Rightarrow> if \<not> ok then Inr False else nodesMatch xs ys subs)"
| "nodesMatch xs ys subs = Inr True"

text \<open>The arguments of \<open>isEquivalent\<close>: \<open>SQL | symbol\<close>.\<close>

datatype sql_or_symbol = OfSQL SQL | OfSymbol symbol

fun isEquivalent :: "sql_or_symbol \<Rightarrow> sql_or_symbol \<Rightarrow> symbolSubstitutes \<Rightarrow> error + bool" where
  "isEquivalent (OfSymbol sql1) sql2 subs =
     (if sql2 = OfSymbol sql1 then Inr True
      else (case substituteOf subs sql1 of
              Some sub \<Rightarrow> Inr (OfSymbol sub = sql2)
            | None \<Rightarrow> Inr (sql2 = OfSymbol sql1)))"
| "isEquivalent (OfSQL sql1) (OfSymbol sql2) subs = Inr False"
| "isEquivalent (OfSQL sql1) (OfSQL sql2) subs = isEquivalentSQL sql1 sql2 subs"

section \<open>replaceSymbol\<close>

text \<open>\<open>frag.names.map(...)\<close> of the \<open>IDENTIFIER\<close> case, with the flag \<open>changed\<close>.\<close>

definition replaceInNames :: "name list \<Rightarrow> symbol \<Rightarrow> symbol \<Rightarrow> bool \<times> name list" where
  "replaceInNames names needle replacement =
     (list_ex (\<lambda>v. case v of NameString str \<Rightarrow> False | NameSymbol nm \<Rightarrow> symbolOf nm = needle) names,
      map (\<lambda>v. case v of
                 NameString str \<Rightarrow> v
               | NameSymbol nm \<Rightarrow>
                   if symbolOf nm = needle then NameSymbol (getSymbolAndName replacement) else v)
        names)"

text \<open>
  \<open>replaceSymbolNodes\<close> is \<open>frag.nodes.map(...)\<close> of \<open>replaceSymbol\<close>, with the flag \<open>changed\<close>:
  \<open>newNode !== node\<close> compares addresses.
\<close>

function replaceSymbolInNode :: "SQL \<Rightarrow> symbol \<Rightarrow> symbol \<Rightarrow> module_state \<Rightarrow> SQL result"
  and replaceSymbol :: "SQL \<Rightarrow> symbol \<Rightarrow> symbol \<Rightarrow> module_state \<Rightarrow> SQL result"
  and replaceSymbolNodes :: "SQL list \<Rightarrow> symbol \<Rightarrow> symbol \<Rightarrow> module_state
        \<Rightarrow> error + (bool \<times> SQL list) \<times> module_state"
where
  "replaceSymbolInNode (RAW r t) needle replacement g = Inr (RAW r t, g)"
| "replaceSymbolInNode (IDENTIFIER r names) needle replacement g =
     (case replaceInNames names needle replacement of
        (changed, newNames) \<Rightarrow>
          Inr (if changed then makeIdentifierNode newNames g else (IDENTIFIER r names, g)))"
| "replaceSymbolInNode (VALUE r v) needle replacement g =
     Inr (if strictEquals v (JSymbol needle) then makeValueNode (JSymbol replacement) g
          else (VALUE r v, g))"
| "replaceSymbolInNode (INDENT r content) needle replacement g =
     (case replaceSymbol content needle replacement g of
        Inl e \<Rightarrow> Inl e
      | Inr (content', g') \<Rightarrow> Inr (makeIndentNode content' g'))"
| "replaceSymbolInNode (PARENS r content force) needle replacement g =
     (case replaceSymbol content needle replacement g of
        Inl e \<Rightarrow> Inl e
      | Inr (content', g') \<Rightarrow> Inr (makeParensNode content' (Some force) g'))"
| "replaceSymbolInNode (SYMBOL_ALIAS r a b) needle replacement g =
     (let newA = (if symbolOf a = needle then replacement else symbolOf a);
          newB = (if symbolOf b = needle then replacement else symbolOf b)
      in Inr (if newA \<noteq> symbolOf a \<or> newB \<noteq> symbolOf b then makeSymbolAliasNode newA newB g
              else (SYMBOL_ALIAS r a b, g)))"
| "replaceSymbolInNode (PLACEHOLDER r sy fallback) needle replacement g =
     Inr (if sy = needle then makePlaceholderNode replacement fallback g
          else (PLACEHOLDER r sy fallback, g))"
| "replaceSymbolInNode (QUERY r nodes fl) needle replacement g = Inl UnsupportedNode"
| "replaceSymbol (QUERY r nodes fl) needle replacement g =
     (case replaceSymbolNodes nodes needle replacement g of
        Inl e \<Rightarrow> Inl e
      | Inr ((changed, newNodes), g') \<Rightarrow>
          Inr (if changed then makeQueryNode newNodes 0 g' else (QUERY r nodes fl, g')))"
| "replaceSymbol (RAW r t) needle replacement g =
     replaceSymbolInNode (RAW r t) needle replacement g"
| "replaceSymbol (VALUE r v) needle replacement g =
     replaceSymbolInNode (VALUE r v) needle replacement g"
| "replaceSymbol (IDENTIFIER r names) needle replacement g =
     replaceSymbolInNode (IDENTIFIER r names) needle replacement g"
| "replaceSymbol (INDENT r content) needle replacement g =
     replaceSymbolInNode (INDENT r content) needle replacement g"
| "replaceSymbol (PARENS r content force) needle replacement g =
     replaceSymbolInNode (PARENS r content force) needle replacement g"
| "replaceSymbol (SYMBOL_ALIAS r a b) needle replacement g =
     replaceSymbolInNode (SYMBOL_ALIAS r a b) needle replacement g"
| "replaceSymbol (PLACEHOLDER r sy fallback) needle replacement g =
     replaceSymbolInNode (PLACEHOLDER r sy fallback) needle replacement g"
| "replaceSymbolNodes [] needle replacement g = Inr ((False, []), g)"
| "replaceSymbolNodes (nd # nodes) needle replacement g =
     (case replaceSymbolInNode nd needle replacement g of
        Inl e \<Rightarrow> Inl e
      | Inr (newNode, g1) \<Rightarrow>
          (case replaceSymbolNodes nodes needle replacement g1 of
             Inl e \<Rightarrow> Inl e
           | Inr ((changed, newNodes), g2) \<Rightarrow>
               Inr ((refOf newNode \<noteq> refOf nd \<or> changed, newNode # newNodes), g2)))"
  by pat_completeness auto
termination
  apply (relation "measure
     (\<lambda>x. case x of
        Inl (frag, needle, replacement, g) \<Rightarrow> 2 * size frag + 1
      | Inr (Inl (frag, needle, replacement, g)) \<Rightarrow> 2 * size frag + 2
      | Inr (Inr (nodes, needle, replacement, g)) \<Rightarrow> itemsWeight nodes + length nodes)")
   apply auto
  subgoal for nodes by (induction nodes) auto
  done

section \<open>Notions used to state the properties\<close>


text \<open>
  What \<open>replaceSymbol\<close> looks for in one node: the needle among the tokens of an Identifier,
  on a side of a SymbolAlias, as the handle of a Placeholder, or as the value of a Value.
\<close>

fun mentions :: "symbol \<Rightarrow> SQL \<Rightarrow> bool" where
  "mentions needle (IDENTIFIER r names) = (NameSymbol ` {nm. symbolOf nm = needle} \<inter> set names \<noteq> {})"
| "mentions needle (SYMBOL_ALIAS r a b) = (symbolOf a = needle \<or> symbolOf b = needle)"
| "mentions needle (PLACEHOLDER r sy fallback) = (sy = needle)"
| "mentions needle (VALUE r v) = (v = JSymbol needle)"
| "mentions needle nd = False"

text \<open>The nodes that \<open>replaceSymbolInNode\<close> rebuilds without looking for a change.\<close>

fun isWrapper :: "SQL \<Rightarrow> bool" where
  "isWrapper (INDENT r content) = True"
| "isWrapper (PARENS r content force) = True"
| "isWrapper nd = False"

fun isQuery :: "SQL \<Rightarrow> bool" where
  "isQuery (QUERY r nodes fl) = True"
| "isQuery nd = False"

text \<open>
  The invariant of the cache of Raw nodes: the node kept for a text is a Raw node of that
  text. \<open>makeRawNode\<close> is the only writer of the cache and keeps it.
\<close>

definition rawCacheOk :: "module_state \<Rightarrow> bool" where
  "rawCacheOk g = (\<forall>(t, nd) \<in> set (CACHE_RAW_NODES g). \<exists>r. nd = RAW r t)"

text \<open>
  The invariant of the fragments that the constructors build: the nodes of a Query are not
  Queries (the static type \<open>SQLNode\<close>), and the content of a Parens node is not a Query
  without nodes (\<open>parens\<close> refuses to wrap one, and no other constructor makes a Parens
  node of new content).
\<close>

fun isEmptyQuery :: "SQL \<Rightarrow> bool" where
  "isEmptyQuery (QUERY r nodes fl) = (nodes = [])"
| "isEmptyQuery nd = False"

fun wellFormed :: "SQL \<Rightarrow> bool" where
  "wellFormed (QUERY r nodes fl) = (\<forall>nd \<in> set nodes. \<not> isQuery nd \<and> wellFormed nd)"
| "wellFormed (INDENT r content) = wellFormed content"
| "wellFormed (PARENS r content force) = (\<not> isEmptyQuery content \<and> wellFormed content)"
| "wellFormed (PLACEHOLDER r sy fallback) =
     (case fallback of None \<Rightarrow> True | Some fb \<Rightarrow> wellFormed fb)"
| "wellFormed nd = True"

text \<open>
  The walk of \<open>compile\<close> over a fragment, as the list of what it meets in order: the
  nodes of the fragment from left to right, through the content of Indent and Parens nodes
  and through the fragments that placeholders resolve to (\<open>placeholderValues\<close> first, then the
  fallback). \<open>leaf\<close> says what is collected at a node that the walk does not open. The
  second argument bounds the nested resolutions through \<open>placeholderValues\<close> as in
  \<open>print\<close>; \<open>None\<close> says that the bound was reached.
\<close>

function (sequential) walk :: "(SQL \<Rightarrow> 'a list) \<Rightarrow> nat \<Rightarrow> placeholderValues \<Rightarrow> SQL \<Rightarrow> 'a list option"
  and walkItems :: "(SQL \<Rightarrow> 'a list) \<Rightarrow> nat \<Rightarrow> placeholderValues \<Rightarrow> SQL list \<Rightarrow> 'a list option"
  and walkNode :: "(SQL \<Rightarrow> 'a list) \<Rightarrow> nat \<Rightarrow> placeholderValues \<Rightarrow> SQL \<Rightarrow> 'a list option"
where
  "walk leaf fuel pv (QUERY r nodes fl) = walkItems leaf fuel pv nodes"
| "walk leaf fuel pv f = walkNode leaf fuel pv f"
| "walkItems leaf fuel pv [] = Some []"
| "walkItems leaf fuel pv (item # items) =
     (case walkNode leaf fuel pv item of
        None \<Rightarrow> None
      | Some vs \<Rightarrow> (case walkItems leaf fuel pv items of None \<Rightarrow> None | Some ws \<Rightarrow> Some (vs @ ws)))"
| "walkNode leaf fuel pv (INDENT r content) = walk leaf fuel pv content"
| "walkNode leaf fuel pv (PARENS r content force) = walk leaf fuel pv content"
| "walkNode leaf fuel pv (PLACEHOLDER r sy fallback) =
     (case pv sy of
        Some resolvedPlaceholder \<Rightarrow>
          (case fuel of 0 \<Rightarrow> None | Suc fuel' \<Rightarrow> walk leaf fuel' pv resolvedPlaceholder)
      | None \<Rightarrow>
          (case fallback of
             None \<Rightarrow> Some []
           | Some resolvedPlaceholder \<Rightarrow> walk leaf fuel pv resolvedPlaceholder))"
| "walkNode leaf fuel pv nd = Some (leaf nd)"
  by pat_completeness auto
termination
  apply (relation "inv_image (less_than <*lex*> less_than)
     (\<lambda>x. case x of
        Inl (leaf, fuel, pv, f) \<Rightarrow> (fuel, 2 * size f + 2)
      | Inr (Inl (leaf, fuel, pv, items)) \<Rightarrow> (fuel, itemsWeight items + length items)
      | Inr (Inr (leaf, fuel, pv, nd)) \<Rightarrow> (fuel, 2 * size nd + 1))")
   apply auto
  subgoal for nodes by (induction nodes) auto
  done

text \<open>The Value nodes on the walk: the scalar of each, in the order of the walk.\<close>

fun valuesOf :: "SQL \<Rightarrow> js_value list" where
  "valuesOf (VALUE r v) = [v]"
| "valuesOf nd = []"

definition walkValues :: "nat \<Rightarrow> placeholderValues \<Rightarrow> SQL \<Rightarrow> js_value list option" where
  "walkValues = walk valuesOf"

text \<open>The opaque tokens on the walk: those of each Identifier node, in the order of the walk.\<close>

fun nameTokens :: "name list \<Rightarrow> SymbolAndName list" where
  "nameTokens [] = []"
| "nameTokens (NameString str # names) = nameTokens names"
| "nameTokens (NameSymbol nm # names) = nm # nameTokens names"

fun tokensOf :: "SQL \<Rightarrow> SymbolAndName list" where
  "tokensOf (IDENTIFIER r names) = nameTokens names"
| "tokensOf nd = []"

definition walkTokens :: "nat \<Rightarrow> placeholderValues \<Rightarrow> SQL \<Rightarrow> SymbolAndName list option" where
  "walkTokens = walk tokensOf"








section \<open>Properties\<close>

subsection \<open>Evaluation of the decimal text\<close>

lemma natToString_small: "n < 10 \<Longrightarrow> natToString n = [digitChar n]"
  by (simp add: natToString.simps)


lemma natToString_1: "natToString (Suc 0) = ''1''"
  by (simp add: natToString_small digitChar_def)

subsection \<open>Parenthesis\<close>

text \<open>
  C4. When \<open>compile\<close> renders a Parens node whose content renders to \<open>inner\<close>, the text it
  pushes is \<open>(inner)\<close> if \<open>force\<close> is set or \<open>inner\<close> is not parens-safe, and \<open>inner\<close> itself
  otherwise; this holds for a Parens node compiled on its own and for one met among the
  items of a query. The parens-safety test is true of \<open>$1\<close>, \<open>12\<close>, \<open>0.5\<close>, \<open>.5\<close>, \<open>'abc'\<close>,
  \<open>foo\<close>, \<open>"FoO"."bar"\<close> and \<open>schema.table.column\<close>, and false of \<open>a = b\<close>, \<open>foo(x)\<close> and
  \<open>a::text\<close>.
\<close>

theorem parens_wrap_iff_forced_or_unsafe:
  "(print fuel isDev pv content indent st = Some (Inr (inner, st')) \<longrightarrow>
      print fuel isDev pv (PARENS r content force) indent st =
        Some (Inr (if force \<or> \<not> isParensSafe inner then ''('' @ inner @ '')'' else inner, st')) \<and>
      printItems fuel isDev pv (PARENS r content force # items) itemIndex itemCount indent
          sqlFragments st =
        printItems fuel isDev pv items (itemIndex + 1) itemCount indent
          (sqlFragments @ [if force \<or> \<not> isParensSafe inner then ''('' @ inner @ '')'' else inner])
          st') \<and>
   isParensSafe ''$1'' \<and> isParensSafe ''12'' \<and> isParensSafe ''0.5'' \<and> isParensSafe ''.5'' \<and>
   isParensSafe ([CHR 0x27] @ ''abc'' @ [CHR 0x27]) \<and> isParensSafe ''foo'' \<and>
   isParensSafe ([CHR 0x22] @ ''FoO'' @ [CHR 0x22] @ ''.'' @ [CHR 0x22] @ ''bar'' @ [CHR 0x22]) \<and>
   isParensSafe ''schema.table.column'' \<and>
   \<not> isParensSafe ''a = b'' \<and> \<not> isParensSafe ''foo(x)'' \<and> \<not> isParensSafe ''a::text''"
proof -
  have safe: "isParensSafe ''$1''" "isParensSafe ''12''" "isParensSafe ''0.5''"
    "isParensSafe ''.5''" "isParensSafe ([CHR 0x27] @ ''abc'' @ [CHR 0x27])"
    "isParensSafe ''foo''"
    "isParensSafe ([CHR 0x22] @ ''FoO'' @ [CHR 0x22] @ ''.'' @ [CHR 0x22] @ ''bar'' @ [CHR 0x22])"
    "isParensSafe ''schema.table.column''"
    by code_simp+
  have unsafe: "\<not> isParensSafe ''a = b''" "\<not> isParensSafe ''foo(x)''"
    "\<not> isParensSafe ''a::text''"
    by code_simp+
  show ?thesis using safe unsafe by simp
qed

theorem parens_wrap_iff_forced_or_unsafe_witness:
  "print 0 False Map.empty (VALUE 3 (JNumber (Num 7))) 0 initialState =
     Some (Inr (''$1'', initialState\<lparr>valueCount := 1, valuesArr := [JNumber (Num 7)]\<rparr>)) \<and>
   print 0 False Map.empty (PARENS 7 (VALUE 3 (JNumber (Num 7))) False) 0 initialState =
     Some (Inr (''$1'', initialState\<lparr>valueCount := 1, valuesArr := [JNumber (Num 7)]\<rparr>)) \<and>
   print 0 False Map.empty (PARENS 7 (VALUE 3 (JNumber (Num 7))) True) 0 initialState =
     Some (Inr (''($1)'', initialState\<lparr>valueCount := 1, valuesArr := [JNumber (Num 7)]\<rparr>))"
proof -
  have inner: "print 0 False Map.empty (VALUE 3 (JNumber (Num 7))) 0 initialState =
     Some (Inr (''$1'', initialState\<lparr>valueCount := 1, valuesArr := [JNumber (Num 7)]\<rparr>))"
    by (simp add: initialState_def natToString_1 arraySet_def)
  show ?thesis
    using inner
      parens_wrap_iff_forced_or_unsafe [of 0 False Map.empty "VALUE 3 (JNumber (Num 7))" 0
        initialState "''$1''" "initialState\<lparr>valueCount := 1, valuesArr := [JNumber (Num 7)]\<rparr>"
        7 False]
      parens_wrap_iff_forced_or_unsafe [of 0 False Map.empty "VALUE 3 (JNumber (Num 7))" 0
        initialState "''$1''" "initialState\<lparr>valueCount := 1, valuesArr := [JNumber (Num 7)]\<rparr>"
        7 True]
    by simp
qed

subsection \<open>Aliases of opaque tokens\<close>


lemma initialModule_eq:
  "initialModule = \<lparr>nextRef = 4,
     CACHE_RAW_NODES = [([], RAW 3 []), (''NULL'', RAW 2 ''NULL''), (''FALSE'', RAW 1 ''FALSE''),
       (''TRUE'', RAW 0 ''TRUE'')],
     CACHE_SIMPLE_FRAGMENTS = [], sqlRawWarningOutput = False\<rparr>"
  by (simp add: initialModule_def makeRawNode_def emptyModule_def lruGet_def lruSet_def Let_def)


text \<open>
  The counter object inherits \<open>constructor\<close> from \<open>Object.prototype\<close>: the first alias made
  for that description ends in \<open>NaN\<close>, the second is the one a first alias has elsewhere.
\<close>

lemma constructor_first_alias:
  "fst (makeIdentifierForSymbol (SymbolAndName sy ''constructor'') initialState) =
     ''__constructor_NaN''"
  by (simp add: makeIdentifierForSymbol_def Let_def descCounterTruthy_def identifierText_def
      initialState_def)





subsection \<open>SymbolAlias nodes\<close>



subsection \<open>value\<close>

text \<open>
  C2, as the code has it. \<open>value\<close> checks nothing: for every input, scalar or not, it returns
  a Value node that holds the input, and it never raises. Only the static type
  \<open>SQLRawValue\<close> keeps objects out.
\<close>

theorem value_accepts_every_input:
  "sql_value v g = Inr (VALUE (nextRef g) v, g\<lparr>nextRef := nextRef g + 1\<rparr>) \<and>
   (\<forall>e. sql_value v g \<noteq> Inl e)"
  by (simp add: sql_value_def makeValueNode_def)

theorem value_accepts_every_input_witness:
  "sql_value (JObject 9 [(''a'', JNumber (Num 1))]) initialModule =
     Inr (VALUE 4 (JObject 9 [(''a'', JNumber (Num 1))]), initialModule\<lparr>nextRef := 5\<rparr>) \<and>
   sql_value (JNumber (Num 42)) initialModule =
     Inr (VALUE 4 (JNumber (Num 42)), initialModule\<lparr>nextRef := 5\<rparr>)"
  using value_accepts_every_input [of "JObject 9 [(''a'', JNumber (Num 1))]" initialModule]
    value_accepts_every_input [of "JNumber (Num 42)" initialModule]
  by (simp add: initialModule_eq)

text \<open>
  C2 as the spec states it fails: a plain object is not a scalar, and \<open>value\<close> makes a Value
  node of it.
\<close>

theorem value_rejects_objects_counterexample:
  "\<not> isSQLRawValue (JObject 9 [(''a'', JNumber (Num 1))]) \<and>
   sql_value (JObject 9 [(''a'', JNumber (Num 1))]) initialModule =
     Inr (VALUE 4 (JObject 9 [(''a'', JNumber (Num 1))]), initialModule\<lparr>nextRef := 5\<rparr>) \<and>
   \<not> (\<forall>v g. \<not> isSQLRawValue v \<longrightarrow> (\<exists>e. sql_value v g = Inl e))"
proof -
  have "sql_value (JObject 9 [(''a'', JNumber (Num 1))]) initialModule =
     Inr (VALUE 4 (JObject 9 [(''a'', JNumber (Num 1))]), initialModule\<lparr>nextRef := 5\<rparr>)"
    by (simp add: sql_value_def makeValueNode_def initialModule_eq)
  moreover have "\<not> isSQLRawValue (JObject 9 [(''a'', JNumber (Num 1))])" by simp
  ultimately show ?thesis by (metis Inl_Inr_False)
qed

subsection \<open>isEquivalent on a SymbolAlias\<close>

text \<open>
  C8, as the code has it. For a SymbolAlias node \<open>a\<close>, \<open>isEquivalent(a, b)\<close> returns true when
  \<open>b\<close> is the same object as \<open>a\<close> and false for every other \<open>b\<close>, fragment or symbol; it
  never raises.
\<close>

theorem symbol_alias_equivalent_only_to_itself:
  "isEquivalent (OfSQL (SYMBOL_ALIAS r a b)) other subs =
     Inr (case other of OfSQL sql2 \<Rightarrow> refOf sql2 = r | OfSymbol sy \<Rightarrow> False)"
  by (cases other) auto

theorem symbol_alias_equivalent_only_to_itself_witness:
  "isEquivalent (OfSQL (SYMBOL_ALIAS 5 (getSymbolAndName (Symbol 1 (Some ''u'')))
       (getSymbolAndName (Symbol 2 (Some ''u'')))))
     (OfSQL (SYMBOL_ALIAS 6 (getSymbolAndName (Symbol 1 (Some ''u'')))
       (getSymbolAndName (Symbol 2 (Some ''u''))))) None = Inr False \<and>
   isEquivalent (OfSQL (SYMBOL_ALIAS 5 (getSymbolAndName (Symbol 1 (Some ''u'')))
       (getSymbolAndName (Symbol 2 (Some ''u'')))))
     (OfSQL (RAW 3 [])) None = Inr False"
  using symbol_alias_equivalent_only_to_itself [of 5 "getSymbolAndName (Symbol 1 (Some ''u''))"
      "getSymbolAndName (Symbol 2 (Some ''u''))"
      "OfSQL (SYMBOL_ALIAS 6 (getSymbolAndName (Symbol 1 (Some ''u'')))
         (getSymbolAndName (Symbol 2 (Some ''u''))))" None]
    symbol_alias_equivalent_only_to_itself [of 5 "getSymbolAndName (Symbol 1 (Some ''u''))"
      "getSymbolAndName (Symbol 2 (Some ''u''))" "OfSQL (RAW 3 [])" None]
  by simp

text \<open>
  C8 as stated fails: a SymbolAlias node compared with itself is equivalent, by the test of
  reference equality that opens \<open>isEquivalent\<close>.
\<close>

theorem symbol_alias_never_equivalent_counterexample:
  "isEquivalent (OfSQL (SYMBOL_ALIAS 5 (getSymbolAndName (Symbol 1 (Some ''u'')))
       (getSymbolAndName (Symbol 2 (Some ''u'')))))
     (OfSQL (SYMBOL_ALIAS 5 (getSymbolAndName (Symbol 1 (Some ''u'')))
       (getSymbolAndName (Symbol 2 (Some ''u''))))) None = Inr True"
  by simp

subsection \<open>Structural sharing in replaceSymbol\<close>

text \<open>
  Where \<open>replaceSymbolInNode\<close> keeps track of a change, a node that does not mention the
  needle is returned as it is, and so is a query made of such nodes: the Raw, Value,
  Identifier, SymbolAlias and Placeholder cases and the Query case of \<open>replaceSymbol\<close>.
\<close>

lemma replaceInNames_unchanged:
  assumes "NameSymbol ` {nm. symbolOf nm = needle} \<inter> set names = {}"
  shows "replaceInNames names needle replacement = (False, names)"
proof -
  have no: "\<And>nm. NameSymbol nm \<in> set names \<Longrightarrow> symbolOf nm \<noteq> needle"
    using assms by auto
  have "list_ex (\<lambda>v. case v of NameString str \<Rightarrow> False | NameSymbol nm \<Rightarrow> symbolOf nm = needle)
          names = False"
    using no by (auto simp: list_ex_iff split: name.splits)
  moreover have "map (\<lambda>v. case v of NameString str \<Rightarrow> v
                     | NameSymbol nm \<Rightarrow>
                         if symbolOf nm = needle then NameSymbol (getSymbolAndName replacement)
                         else v) names = names"
    using no by (intro map_idI) (auto split: name.splits)
  ultimately show ?thesis
    unfolding replaceInNames_def by simp
qed

lemma strictEquals_symbol: "strictEquals v (JSymbol needle) = (v = JSymbol needle)"
  by (cases v) auto

lemma replaceSymbolInNode_shares:
  assumes "\<not> mentions needle nd" and "\<not> isWrapper nd" and "\<not> isQuery nd"
  shows "replaceSymbolInNode nd needle replacement g = Inr (nd, g)"
  using assms
  by (cases nd) (auto simp: replaceInNames_unchanged strictEquals_symbol)

lemma replaceSymbolNodes_shares:
  assumes "\<forall>nd \<in> set nodes. \<not> mentions needle nd \<and> \<not> isWrapper nd \<and> \<not> isQuery nd"
  shows "replaceSymbolNodes nodes needle replacement g = Inr ((False, nodes), g)"
  using assms by (induction nodes) (auto simp: replaceSymbolInNode_shares)

lemma replaceSymbol_shares_flat:
  assumes "\<forall>nd \<in> set nodes. \<not> mentions needle nd \<and> \<not> isWrapper nd \<and> \<not> isQuery nd"
  shows "replaceSymbol (QUERY r nodes fl) needle replacement g = Inr (QUERY r nodes fl, g)"
  using replaceSymbolNodes_shares [OF assms] by simp

text \<open>
  C6 fails on the code for Indent and Parens: \<open>replaceSymbolInNode\<close> rebuilds these two
  nodes whether or not anything changed beneath them, so the result is a new object, and
  a query that holds one of them is rebuilt as well. An Identifier without the needle is
  returned as it is.
\<close>

theorem replaceSymbol_rebuilds_wrappers:
  "replaceSymbol (PARENS 5 (VALUE 4 (JNumber (Num 1))) False) (Symbol 1 (Some ''a''))
     (Symbol 2 (Some ''b'')) (initialModule\<lparr>nextRef := 6\<rparr>) =
     Inr (PARENS 6 (VALUE 4 (JNumber (Num 1))) False, initialModule\<lparr>nextRef := 7\<rparr>) \<and>
   replaceSymbol (INDENT 5 (VALUE 4 (JNumber (Num 1)))) (Symbol 1 (Some ''a''))
     (Symbol 2 (Some ''b'')) (initialModule\<lparr>nextRef := 6\<rparr>) =
     Inr (INDENT 6 (VALUE 4 (JNumber (Num 1))), initialModule\<lparr>nextRef := 7\<rparr>) \<and>
   replaceSymbol (QUERY 7 [RAW 6 ''x'', PARENS 5 (VALUE 4 (JNumber (Num 1))) False] 0)
     (Symbol 1 (Some ''a'')) (Symbol 2 (Some ''b'')) (initialModule\<lparr>nextRef := 8\<rparr>) =
     Inr (QUERY 9 [RAW 6 ''x'', PARENS 8 (VALUE 4 (JNumber (Num 1))) False] 0,
          initialModule\<lparr>nextRef := 10\<rparr>) \<and>
   replaceSymbol (IDENTIFIER 5 [NameSymbol (getSymbolAndName (Symbol 3 (Some ''c'')))])
     (Symbol 1 (Some ''a'')) (Symbol 2 (Some ''b'')) (initialModule\<lparr>nextRef := 6\<rparr>) =
     Inr (IDENTIFIER 5 [NameSymbol (getSymbolAndName (Symbol 3 (Some ''c'')))],
          initialModule\<lparr>nextRef := 6\<rparr>)"
  by (simp add: makeParensNode_def makeIndentNode_def makeQueryNode_def initialModule_eq
      replaceInNames_def getSymbolAndName_def)

subsection \<open>literal\<close>

lemma lruGet_hit:
  assumes "rawCacheOk g" and "lruGet t (CACHE_RAW_NODES g) = (Some nd, c)"
  shows "(\<exists>r. nd = RAW r t) \<and> (\<forall>(t', nd') \<in> set c. \<exists>r. nd' = RAW r t')"
proof -
  from assms(2) have m: "map_of (CACHE_RAW_NODES g) t = Some nd"
    and c: "c = (t, nd) # filter (\<lambda>kv. fst kv \<noteq> t) (CACHE_RAW_NODES g)"
    by (auto simp: lruGet_def split: option.splits)
  from m have "(t, nd) \<in> set (CACHE_RAW_NODES g)" by (rule map_of_SomeD)
  with assms(1) have "\<exists>r. nd = RAW r t" by (auto simp: rawCacheOk_def)
  then show ?thesis using assms(1) c by (auto simp: rawCacheOk_def)
qed

lemma lruGet_miss:
  assumes "lruGet t (CACHE_RAW_NODES g) = (None, c)"
  shows "c = CACHE_RAW_NODES g"
  using assms by (auto simp: lruGet_def split: option.splits)

lemma makeRawNode_RAW:
  assumes "rawCacheOk g"
  shows "\<exists>r. fst (makeRawNode t g) = RAW r t" and "rawCacheOk (snd (makeRawNode t g))"
proof -
  obtain hit c where l: "lruGet t (CACHE_RAW_NODES g) = (hit, c)"
    by (cases "lruGet t (CACHE_RAW_NODES g)")
  show "\<exists>r. fst (makeRawNode t g) = RAW r t"
  proof (cases hit)
    case None
    then show ?thesis using l by (simp add: makeRawNode_def Let_def)
  next
    case (Some nd)
    then show ?thesis using l lruGet_hit [OF assms, of t nd c] by (simp add: makeRawNode_def)
  qed
  show "rawCacheOk (snd (makeRawNode t g))"
  proof (cases hit)
    case None
    with l have c: "c = CACHE_RAW_NODES g" using lruGet_miss by simp
    have "set (lruSet 10000 t (RAW (nextRef g) t) c) \<subseteq> insert (t, RAW (nextRef g) t) (set c)"
      unfolding lruSet_def using set_take_subset [of 10000 "(t, RAW (nextRef g) t) # filter (\<lambda>kv. fst kv \<noteq> t) c"]
      by auto
    then show ?thesis using None l c assms
      by (auto simp: makeRawNode_def Let_def rawCacheOk_def)
  next
    case (Some nd)
    then show ?thesis using l lruGet_hit [OF assms, of t nd c]
      by (simp add: makeRawNode_def rawCacheOk_def)
  qed
qed

lemma rawCacheOk_initialModule: "rawCacheOk initialModule"
  by (simp add: rawCacheOk_def initialModule_def makeRawNode_def emptyModule_def lruGet_def lruSet_def Let_def)

lemma indentNewlines_id: "CHR 0x0A \<notin> set t \<Longrightarrow> indentNewlines indent t = t"
  by (induction t) (auto simp: indentNewlines_def)

lemma collapseBlankLines_id: "CHR 0x0A \<notin> set t \<Longrightarrow> collapseBlankLines t = t"
  by (induction t) auto

lemma isInlineChar_not_newline: "isInlineChar c \<Longrightarrow> c \<noteq> CHR 0x0A"
  by (auto simp: isInlineChar_def isWordChar_def isLower_def isUpper_def isDigit_def)

lemma compile_RAW:
  assumes "t \<noteq> []" and "CHR 0x0A \<notin> set t" and "t \<noteq> '';''"
  shows "compile fuel isDev pv (RAW r t) = Some (Inr \<lparr>out_text = t, out_values = []\<rparr>)"
  using assms
  by (simp add: compile_def indentNewlines_id collapseBlankLines_id initialState_def)

lemma compile_VALUE:
  "compile fuel isDev pv (VALUE r v) = Some (Inr \<lparr>out_text = ''$1'', out_values = [v]\<rparr>)"
  by (simp add: compile_def initialState_def arraySet_def natToString_small digitChar_def)

text \<open>
  C5. \<open>literal(true)\<close>, \<open>literal(false)\<close> and \<open>literal(null)\<close> are the nodes that compile to
  \<open>TRUE\<close>, \<open>FALSE\<close> and \<open>NULL\<close> with no values. For a string of characters of
  \<open>[-a-zA-Z0-9_@!$ :".]\<close> only, \<open>literal\<close> returns a Raw node whose compiled text is the string
  between single quotes, with no values; for every other string it returns a Value node, which
  compiles to \<open>$1\<close> with the string as the one value. This holds in every module state that
  the constructors can reach (\<open>rawCacheOk\<close>), in development and in production mode.
\<close>

theorem literal_inlines_or_defers:
  assumes "rawCacheOk g"
  shows "literal numberToString (JBoolean True) g = Inr (trueNode, g) \<and>
         literal numberToString (JBoolean False) g = Inr (falseNode, g) \<and>
         literal numberToString JNull g = Inr (nullNode, g) \<and>
         compile fuel isDev pv trueNode = Some (Inr \<lparr>out_text = ''TRUE'', out_values = []\<rparr>) \<and>
         compile fuel isDev pv falseNode = Some (Inr \<lparr>out_text = ''FALSE'', out_values = []\<rparr>) \<and>
         compile fuel isDev pv nullNode = Some (Inr \<lparr>out_text = ''NULL'', out_values = []\<rparr>) \<and>
         (list_all isInlineChar str \<longrightarrow>
            (\<exists>r g'. literal numberToString (JString str) g =
                       Inr (RAW r ([CHR 0x27] @ str @ [CHR 0x27]), g') \<and>
                     compile fuel isDev pv (RAW r ([CHR 0x27] @ str @ [CHR 0x27])) =
                       Some (Inr \<lparr>out_text = [CHR 0x27] @ str @ [CHR 0x27], out_values = []\<rparr>))) \<and>
         (\<not> list_all isInlineChar str \<longrightarrow>
            (\<exists>r g'. literal numberToString (JString str) g = Inr (VALUE r (JString str), g') \<and>
                     compile fuel isDev pv (VALUE r (JString str)) =
                       Some (Inr \<lparr>out_text = ''$1'', out_values = [JString str]\<rparr>)))"
proof -
  have known: "compile fuel isDev pv trueNode = Some (Inr \<lparr>out_text = ''TRUE'', out_values = []\<rparr>)"
    "compile fuel isDev pv falseNode = Some (Inr \<lparr>out_text = ''FALSE'', out_values = []\<rparr>)"
    "compile fuel isDev pv nullNode = Some (Inr \<lparr>out_text = ''NULL'', out_values = []\<rparr>)"
    by (simp_all add: trueNode_def falseNode_def nullNode_def compile_RAW)
  have inline: "\<exists>r g'. literal numberToString (JString str) g =
                       Inr (RAW r ([CHR 0x27] @ str @ [CHR 0x27]), g') \<and>
                     compile fuel isDev pv (RAW r ([CHR 0x27] @ str @ [CHR 0x27])) =
                       Some (Inr \<lparr>out_text = [CHR 0x27] @ str @ [CHR 0x27], out_values = []\<rparr>)"
    if safe: "list_all isInlineChar str"
  proof -
    from makeRawNode_RAW(1) [OF assms, of "[CHR 0x27] @ str @ [CHR 0x27]"]
    obtain r where r: "fst (makeRawNode ([CHR 0x27] @ str @ [CHR 0x27]) g) =
        RAW r ([CHR 0x27] @ str @ [CHR 0x27])" by blast
    have nl: "CHR 0x0A \<notin> set ([CHR 0x27] @ str @ [CHR 0x27])"
      using safe isInlineChar_not_newline by (auto simp: list_all_iff)
    have "literal numberToString (JString str) g =
        Inr (RAW r ([CHR 0x27] @ str @ [CHR 0x27]), snd (makeRawNode ([CHR 0x27] @ str @ [CHR 0x27]) g))"
      using safe r by (simp add: literal_def prod_eq_iff)
    moreover have "compile fuel isDev pv (RAW r ([CHR 0x27] @ str @ [CHR 0x27])) =
        Some (Inr \<lparr>out_text = [CHR 0x27] @ str @ [CHR 0x27], out_values = []\<rparr>)"
      using nl by (intro compile_RAW) auto
    ultimately show ?thesis by blast
  qed
  have deferred: "\<exists>r g'. literal numberToString (JString str) g = Inr (VALUE r (JString str), g') \<and>
                     compile fuel isDev pv (VALUE r (JString str)) =
                       Some (Inr \<lparr>out_text = ''$1'', out_values = [JString str]\<rparr>)"
    if "\<not> list_all isInlineChar str"
    using that by (simp add: literal_def sql_value_def makeValueNode_def compile_VALUE)
  show ?thesis
    using known inline deferred by (simp add: literal_def)
qed

theorem literal_inlines_or_defers_witness:
  "rawCacheOk initialModule \<and> list_all isInlineChar ''hello'' \<and>
   \<not> list_all isInlineChar [CHR ''i'', CHR ''t'', CHR 0x27, CHR ''s''] \<and>
   (\<exists>r g'. literal (\<lambda>x. ''0'') (JString ''hello'') initialModule =
              Inr (RAW r ([CHR 0x27] @ ''hello'' @ [CHR 0x27]), g') \<and>
            compile 0 False Map.empty (RAW r ([CHR 0x27] @ ''hello'' @ [CHR 0x27])) =
              Some (Inr \<lparr>out_text = [CHR 0x27] @ ''hello'' @ [CHR 0x27], out_values = []\<rparr>)) \<and>
   (\<exists>r g'. literal (\<lambda>x. ''0'') (JString [CHR ''i'', CHR ''t'', CHR 0x27, CHR ''s'']) initialModule =
              Inr (VALUE r (JString [CHR ''i'', CHR ''t'', CHR 0x27, CHR ''s'']), g') \<and>
            compile 0 False Map.empty (VALUE r (JString [CHR ''i'', CHR ''t'', CHR 0x27, CHR ''s''])) =
              Some (Inr \<lparr>out_text = ''$1'',
                          out_values = [JString [CHR ''i'', CHR ''t'', CHR 0x27, CHR ''s'']]\<rparr>)) \<and>
   literal (\<lambda>x. ''0'') (JBoolean True) initialModule = Inr (RAW 0 ''TRUE'', initialModule) \<and>
   compile 0 False Map.empty (RAW 0 ''TRUE'') = Some (Inr \<lparr>out_text = ''TRUE'', out_values = []\<rparr>)"
proof -
  have a: "list_all isInlineChar ''hello''" by code_simp
  have b: "\<not> list_all isInlineChar [CHR ''i'', CHR ''t'', CHR 0x27, CHR ''s'']" by code_simp
  show ?thesis
    using a b rawCacheOk_initialModule
      literal_inlines_or_defers [OF rawCacheOk_initialModule, of "\<lambda>x. ''0''" 0 False Map.empty
        "''hello''"]
      literal_inlines_or_defers [OF rawCacheOk_initialModule, of "\<lambda>x. ''0''" 0 False Map.empty
        "[CHR ''i'', CHR ''t'', CHR 0x27, CHR ''s'']"]
    by (simp add: trueNode_def)
qed

subsection \<open>parens\<close>

lemma isEmptyQuery_isQuery: "isEmptyQuery nd \<Longrightarrow> isQuery nd"
  by (cases nd) auto

lemma parens_succeeds:
  assumes "wellFormed f" and "\<not> isEmptyQuery f"
  shows "\<exists>p g'. parens f force g = Inr (p, g')"
  using assms
proof (induction f force g rule: parens.induct)
  case (5 r content force g)
  then show ?case
    by (auto simp: makeParensNode_def split: SQL.splits list.splits)
qed (auto simp: makeParensNode_def dest: isEmptyQuery_isQuery)

lemma parens_preserves_wellFormed:
  assumes "wellFormed f" and "parens f force g = Inr (p, g')"
  shows "wellFormed p"
  using assms
proof (induction f force g rule: parens.induct)
  case (5 r content force g)
  then show ?case
    by (auto simp: makeParensNode_def split: SQL.splits list.splits if_splits)
qed (auto simp: makeParensNode_def split: if_splits)

lemma parens_error_is_EmptyParens:
  "parens f force g = Inl e \<Longrightarrow> e = EmptyParens"
proof (induction f force g rule: parens.induct)
  case (5 r content force g)
  then show ?case
    by (auto simp: makeParensNode_def split: SQL.splits list.splits if_splits)
qed (auto simp: makeParensNode_def split: if_splits)

lemma not_isParensSafe_empty: "\<not> isParensSafe []"
  by (simp add: isParensSafe_def matchPlaceholder_def matchNumber_def matchFraction_def
      matchQuoted_def matchWord_def)

lemma compile_parens_blank:
  "compile fuel isDev pv (PARENS r blank force) = Some (Inr \<lparr>out_text = ''()'', out_values = []\<rparr>)"
  by (simp add: compile_def blank_def not_isParensSafe_empty initialState_def)

text \<open>
  C10. For a fragment that the constructors can build (\<open>wellFormed\<close>), \<open>parens\<close> raises the
  empty-fragment error exactly when the fragment is a Query with no nodes, and it raises no
  other error. The blank fragment is accepted: \<open>parens(blank)\<close> is a Parens node around it,
  which compiles to \<open>()\<close> with no values, since the empty text is not parens-safe.
\<close>

theorem parens_empty_fragment:
  assumes "wellFormed f"
  shows "(parens f force g = Inl EmptyParens \<longleftrightarrow> (\<exists>r fl. f = QUERY r [] fl)) \<and>
         (\<forall>e. parens f force g = Inl e \<longrightarrow> e = EmptyParens) \<and>
         parens blank force g =
           Inr (PARENS (nextRef g) blank (force = Some True), g\<lparr>nextRef := nextRef g + 1\<rparr>) \<and>
         compile fuel isDev pv (PARENS (nextRef g) blank (force = Some True)) =
           Some (Inr \<lparr>out_text = ''()'', out_values = []\<rparr>) \<and>
         \<not> isParensSafe []"
proof -
  have e: "isEmptyQuery f \<longleftrightarrow> (\<exists>r fl. f = QUERY r [] fl)"
    by (cases f) auto
  have "parens f force g = Inl EmptyParens \<longleftrightarrow> isEmptyQuery f"
  proof
    assume "parens f force g = Inl EmptyParens"
    then show "isEmptyQuery f"
      using parens_succeeds [OF assms, of force g] by auto
  next
    assume "isEmptyQuery f"
    then show "parens f force g = Inl EmptyParens"
      using e by auto
  qed
  moreover have "parens blank force g =
      Inr (PARENS (nextRef g) blank (force = Some True), g\<lparr>nextRef := nextRef g + 1\<rparr>)"
    by (cases force) (auto simp: blank_def makeParensNode_def)
  ultimately show ?thesis
    using e parens_error_is_EmptyParens compile_parens_blank not_isParensSafe_empty by blast
qed

theorem parens_empty_fragment_witness:
  "wellFormed (QUERY 7 [] 0) \<and> parens (QUERY 7 [] 0) None initialModule = Inl EmptyParens \<and>
   wellFormed (QUERY 7 [RAW 5 ''a'', RAW 6 ''b''] 0) \<and>
   parens (QUERY 7 [RAW 5 ''a'', RAW 6 ''b''] 0) None initialModule \<noteq> Inl EmptyParens \<and>
   parens blank None initialModule = Inr (PARENS 4 blank False, initialModule\<lparr>nextRef := 5\<rparr>) \<and>
   compile 0 False Map.empty (PARENS 4 blank False) =
     Some (Inr \<lparr>out_text = ''()'', out_values = []\<rparr>)"
proof -
  have w: "wellFormed (QUERY 7 [] 0)" "wellFormed (QUERY 7 [RAW 5 ''a'', RAW 6 ''b''] 0)"
    by simp_all
  have n: "nextRef initialModule = 4"
    by (simp add: initialModule_def makeRawNode_def emptyModule_def lruGet_def lruSet_def Let_def)
  show ?thesis
    using w n parens_empty_fragment [OF w(1), of None initialModule 0 False Map.empty]
      parens_empty_fragment [OF w(2), of None initialModule 0 False Map.empty]
    by simp
qed

text \<open>
  The invariant is needed: \<open>parens\<close> unwraps an unforced Parens node when \<open>force\<close> is set, and
  would meet the empty Query inside a Parens node that no constructor can build.
\<close>

lemma parens_ill_formed:
  "parens (PARENS 1 (QUERY 0 [] 0) False) (Some True) g = Inl EmptyParens"
  by simp

subsection \<open>The state of a compile\<close>

lemma makeIdentifierForSymbol_frame [simp]:
  "valueCount (snd (makeIdentifierForSymbol nm st)) = valueCount st"
  "valuesArr (snd (makeIdentifierForSymbol nm st)) = valuesArr st"
  by (simp_all add: makeIdentifierForSymbol_def Let_def)

lemma mapNames_frame:
  "valueCount (snd (mapNames names st)) = valueCount st \<and>
   valuesArr (snd (mapNames names st)) = valuesArr st"
proof (induction names st rule: mapNames.induct)
  case (3 nm names st)
  then show ?case
    by (cases "truthy (symbolToIdentifier st (symbolOf nm))")
       (auto split: prod.splits simp: prod_eq_iff)
qed (auto split: prod.splits)

lemma valueCount_mono:
  "print fuel isDev pv f indent st = Some (Inr (out, st')) \<Longrightarrow> valueCount st \<le> valueCount st'"
  "printItems fuel isDev pv items itemIndex itemCount indent sqlFragments st = Some (Inr (frs, st'))
     \<Longrightarrow> valueCount st \<le> valueCount st'"
proof (induction fuel isDev pv f indent st and fuel isDev pv items itemIndex itemCount indent sqlFragments st
    arbitrary: out st' and frs st' rule: print_printItems.induct)
  case (11 fuel isDev pv r names items itemIndex itemCount indent sqlFragments st)
  then show ?case using mapNames_frame [of names st]
    by (auto split: prod.splits)
next
  case (15 fuel isDev pv r a b items itemIndex itemCount indent sqlFragments st)
  then show ?case
    by (auto simp: Let_def split: if_splits prod.splits) (fastforce simp: makeIdentifierForSymbol_def Let_def)+
qed (auto split: option.splits sum.splits prod.splits if_splits nat.splits, fastforce+)

subsection \<open>Decimal text is injective\<close>







subsection \<open>The alias text determines the description and the number\<close>





subsection \<open>mangleName\<close>









subsection \<open>Every alias of a token was made in this compile\<close>


















subsection \<open>Distinct tokens have distinct aliases\<close>






end
